theory Spec2Isabelle
  imports Main
begin

section \<open>Python values\<close>

text \<open>
  A Python \<open>str\<close> is a sequence of Unicode code points and \<open>bytes\<close> a sequence of
  octets; both are lists of naturals. \<open>py\<close> turns an ASCII literal of the source into
  its code points.
\<close>

type_synonym pystr = "nat list"
type_synonym bytes = "nat list"

definition py :: "string \<Rightarrow> pystr" where
  "py s = map of_char s"

text \<open>
  \<open>str.isspace\<close> on one code point: the code points CPython lists as whitespace
  (bidirectional type WS, B or S, or category Zs).
\<close>

definition isspace :: "nat \<Rightarrow> bool" where
  "isspace c \<longleftrightarrow>
     (9 \<le> c \<and> c \<le> 13) \<or> (28 \<le> c \<and> c \<le> 32) \<or> c = 133 \<or> c = 160 \<or> c = 5760 \<or>
     (8192 \<le> c \<and> c \<le> 8202) \<or> c = 8232 \<or> c = 8233 \<or> c = 8239 \<or> c = 8287 \<or> c = 12288"

text \<open>\<open>str.strip()\<close> without argument: whitespace removed at both ends.\<close>

definition strip :: "pystr \<Rightarrow> pystr" where
  "strip s = rev (dropWhile isspace (rev (dropWhile isspace s)))"

section \<open>Prompt blocks and the content extractor\<close>

text \<open>
  A prompt block is duck-typed: either an object, of which the code only inspects the
  attributes \<open>text\<close>, \<open>type\<close> and \<open>data\<close> (\<open>hasattr\<close>, \<open>getattr\<close>), or a \<open>dict\<close>, of
  which it reads the keys \<open>type\<close>, \<open>text\<close> and \<open>data\<close> (\<open>get\<close>). Both are maps from
  names to values; a name that is absent maps to \<open>None\<close>. The values are strings, as the
  protocol schema declares them. A \<open>dict\<close> has no attribute \<open>text\<close> or \<open>type\<close>, and an
  object is not an instance of \<open>dict\<close>.
\<close>

datatype block = Obj "string \<rightharpoonup> pystr" | Dict "string \<rightharpoonup> pystr"

text \<open>
  \<open>base64.b64decode\<close> belongs to the standard library and is a parameter of the model:
  \<open>Inr\<close> the decoded bytes, \<open>Inl\<close> the text of the exception it raises.
\<close>

type_synonym decoder = "pystr \<Rightarrow> pystr + bytes"

text \<open>
  Lines 235-239 and again 244-248: when \<open>data\<close> is truthy, decode it and append the bytes;
  an exception of the decoder is caught and logged, the image is not appended.
\<close>

definition decode_image ::
  "decoder \<Rightarrow> pystr \<Rightarrow> bytes list \<times> pystr list \<Rightarrow> bytes list \<times> pystr list" where
  "decode_image b64decode data acc =
     (case acc of (images, lg) \<Rightarrow>
        if data \<noteq> [] then
          (case b64decode data of
             Inr raw \<Rightarrow> (images @ [raw], lg)
           | Inl e \<Rightarrow> (images, lg @ [py ''Failed to decode image: '' @ e]))
        else (images, lg))"

text \<open>
  One iteration of the loop of \<open>_extract_content_from_prompt\<close> (lines 225-248) on the
  accumulators \<open>prompt_text\<close>, \<open>images\<close> and the lines written by \<open>logging.error\<close>.
\<close>

fun extract_block ::
  "decoder \<Rightarrow> block \<Rightarrow> pystr \<times> bytes list \<times> pystr list \<Rightarrow> pystr \<times> bytes list \<times> pystr list" where
  "extract_block b64decode (Obj a) (prompt_text, images, lg) =
     (let prompt_text' = (case a ''text'' of Some t \<Rightarrow> prompt_text @ t | None \<Rightarrow> prompt_text);
          (images', lg') =
            (if a ''type'' = Some (py ''image'')
             then decode_image b64decode (case a ''data'' of Some x \<Rightarrow> x | None \<Rightarrow> []) (images, lg)
             else (images, lg))
      in (prompt_text', images', lg'))"
| "extract_block b64decode (Dict d) (prompt_text, images, lg) =
     (if d ''type'' = Some (py ''text'')
      then (prompt_text @ (case d ''text'' of Some t \<Rightarrow> t | None \<Rightarrow> []), images, lg)
      else if d ''type'' = Some (py ''image'')
      then (let (images', lg') =
                  decode_image b64decode (case d ''data'' of Some x \<Rightarrow> x | None \<Rightarrow> []) (images, lg)
            in (prompt_text, images', lg'))
      else (prompt_text, images, lg))"

text \<open>The \<open>for\<close> loop over the blocks of the prompt, in list order.\<close>

fun extract_loop ::
  "decoder \<Rightarrow> block list \<Rightarrow> pystr \<times> bytes list \<times> pystr list \<Rightarrow> pystr \<times> bytes list \<times> pystr list" where
  "extract_loop b64decode [] acc = acc"
| "extract_loop b64decode (b # bs) acc = extract_loop b64decode bs (extract_block b64decode b acc)"

text \<open>
  \<open>_extract_content_from_prompt\<close>: the returned pair \<open>(prompt_text.strip(), images)\<close>,
  and beside it the lines logged on the way.
\<close>

definition extract_content_from_prompt ::
  "decoder \<Rightarrow> block list \<Rightarrow> (pystr \<times> bytes list) \<times> pystr list" where
  "extract_content_from_prompt b64decode prompt =
     (case extract_loop b64decode prompt ([], [], []) of
        (prompt_text, images, lg) \<Rightarrow> ((strip prompt_text, images), lg))"

section \<open>Messages, sessions and the streaming driver\<close>

text \<open>
  A message of the conversation history is the dict built at lines 189-196 and 206-209:
  the keys \<open>role\<close> and \<open>content\<close>, and \<open>images\<close> only when the list is not empty.
\<close>

datatype role = User | Assistant

record message =
  role :: role
  content :: pystr
  images :: "bytes list option"

text \<open>
  A chunk of the backend stream is subscripted twice by the driver: \<open>'message' in chunk\<close>
  and \<open>chunk['message'].get('content', '')\<close>.
\<close>

type_synonym chunk = "string \<rightharpoonup> (string \<rightharpoonup> pystr)"

text \<open>What \<open>update_agent_message_text\<close> builds for \<open>session_update\<close>.\<close>

datatype update = AgentMessageText pystr

text \<open>
  A coroutine runs from one \<open>await\<close> to the next. What the event loop hands it when it
  resumes: the awaited call has returned (\<open>Go\<close>, also the first step of a task), the
  stream has produced a chunk, the stream is exhausted, the awaited call has raised an
  \<open>Exception\<close> (given by its \<open>str\<close>), or \<open>CancelledError\<close> is thrown in.
\<close>

datatype resume = Go | Item chunk | StopAsyncIteration | Throw pystr | Cancel

text \<open>
  \<open>_stream_ollama_response\<close> (lines 252-281) is suspended in \<open>chat\<close> (line 258), in
  the \<open>async for\<close> (line 265) or in \<open>session_update\<close> (line 272); in the last two
  \<open>full_response\<close> is live. A step yields where the driver is next, the updates it has
  passed to \<open>session_update\<close> and the messages it has passed to \<open>logging\<close>.
  \<open>CancelledError\<close> is no \<open>Exception\<close>: line 279 does not catch it.
\<close>

datatype stream_pc = AwaitChat | AwaitNext pystr | AwaitUpdate pystr

datatype stream_outcome = Suspended stream_pc | Returns pystr | Raises pystr | Cancelled

fun stream_ollama_response_step ::
  "stream_pc \<Rightarrow> resume \<Rightarrow> (stream_outcome \<times> update list \<times> pystr list) option" where
  "stream_ollama_response_step spc Cancel = Some (Cancelled, [], [])"
| "stream_ollama_response_step spc (Throw e) =
     Some (Raises e, [], [py ''Error during Ollama streaming''])"
| "stream_ollama_response_step AwaitChat Go = Some (Suspended (AwaitNext []), [], [])"
| "stream_ollama_response_step (AwaitNext full_response) (Item chunk) =
     (case chunk ''message'' of
        None \<Rightarrow> Some (Suspended (AwaitNext full_response), [], [])
      | Some m \<Rightarrow>
          (let content = (case m ''content'' of Some c \<Rightarrow> c | None \<Rightarrow> [])
           in if content \<noteq> []
              then Some (Suspended (AwaitUpdate (full_response @ content)),
                         [AgentMessageText content], [])
              else Some (Suspended (AwaitNext full_response), [], [])))"
| "stream_ollama_response_step (AwaitNext full_response) StopAsyncIteration =
     Some (Returns full_response, [], [])"
| "stream_ollama_response_step (AwaitUpdate full_response) Go =
     Some (Suspended (AwaitNext full_response), [], [])"
| "stream_ollama_response_step _ _ = None"

text \<open>The driver from a suspension point through a list of resumptions, until it ends.\<close>

fun stream_ollama_response_run ::
  "stream_pc \<Rightarrow> resume list \<Rightarrow> (stream_outcome \<times> update list \<times> pystr list) option" where
  "stream_ollama_response_run spc [] = Some (Suspended spc, [], [])"
| "stream_ollama_response_run spc (r # rs) =
     (case stream_ollama_response_step spc r of
        None \<Rightarrow> None
      | Some (Suspended spc', ds, lg) \<Rightarrow>
          (case stream_ollama_response_run spc' rs of
             None \<Rightarrow> None
           | Some (out, ds', lg') \<Rightarrow> Some (out, ds @ ds', lg @ lg'))
      | Some (out, ds, lg) \<Rightarrow> (if rs = [] then Some (out, ds, lg) else None))"

section \<open>One Run: the coroutine \<open>handle_prompt\<close>\<close>

text \<open>
  An \<open>Exception\<close> is the \<open>KeyError\<close> of \<open>self._sessions[session_id]\<close> or any other one,
  given by its \<open>str\<close>. A task ends by returning, by raising, or cancelled.
\<close>

datatype exn = KeyError pystr | Failure pystr

datatype result = Returned | Raised exn | CancelledError

datatype pc = NotStarted | Streaming stream_pc | AwaitNotice | Finished result

text \<open>
  What a step does to the world outside the coroutine: the messages appended to the
  session's history, the updates passed to \<open>session_update\<close>, the messages passed to
  \<open>logging\<close>.
\<close>

record effects =
  appended :: "message list"
  delivered :: "update list"
  logged :: "pystr list"

definition no_effects :: effects where
  "no_effects = \<lparr>appended = [], delivered = [], logged = []\<rparr>"

definition join_effects :: "effects \<Rightarrow> effects \<Rightarrow> effects" where
  "join_effects e1 e2 =
     \<lparr>appended = appended e1 @ appended e2, delivered = delivered e1 @ delivered e2,
      logged = logged e1 @ logged e2\<rparr>"

text \<open>The text of line 216 before \<open>str(e)\<close>, as code points.\<close>

definition apology :: pystr where
  "apology = [88, 105, 110, 32, 108, 7895, 105, 44, 32, 273, 227, 32, 99, 243, 32,
              108, 7895, 105, 32, 120, 7843, 121, 32, 114, 97, 58, 32]"

definition error_notice :: "pystr \<Rightarrow> update" where
  "error_notice e = AgentMessageText (apology @ e)"

text \<open>
  \<open>handle_prompt\<close> (lines 178-218). \<open>registered\<close> says whether \<open>session_id\<close> is a key of
  \<open>self._sessions\<close> when line 180 runs. A task cancelled before its first step never runs
  its body. The \<open>except Exception\<close> of line 211 catches what the driver raises, not
  \<open>CancelledError\<close>, and does not raise again; what \<open>session_update\<close> raises at
  line 213 leaves the coroutine.
\<close>

fun handle_prompt_step ::
  "decoder \<Rightarrow> pystr \<Rightarrow> block list \<Rightarrow> bool \<Rightarrow> pc \<Rightarrow> resume \<Rightarrow> (pc \<times> effects) option" where
  "handle_prompt_step b64decode session_id prompt registered NotStarted Cancel =
     Some (Finished CancelledError, no_effects)"
| "handle_prompt_step b64decode session_id prompt registered NotStarted Go =
     (if \<not> registered then Some (Finished (Raised (KeyError session_id)), no_effects)
      else
        (case extract_content_from_prompt b64decode prompt of
           ((prompt_text, imgs), lg) \<Rightarrow>
             if prompt_text = [] \<and> imgs = []
             then Some (Finished Returned, \<lparr>appended = [], delivered = [], logged = lg\<rparr>)
             else
               (let user_message =
                      \<lparr>role = User, content = prompt_text,
                       images = (if imgs \<noteq> [] then Some imgs else None)\<rparr>
                in Some (Streaming AwaitChat,
                         \<lparr>appended = [user_message], delivered = [], logged = lg\<rparr>))))"
| "handle_prompt_step b64decode session_id prompt registered (Streaming spc) r =
     (case stream_ollama_response_step spc r of
        None \<Rightarrow> None
      | Some (Suspended spc', ds, lg) \<Rightarrow>
          Some (Streaming spc', \<lparr>appended = [], delivered = ds, logged = lg\<rparr>)
      | Some (Returns response_text, ds, lg) \<Rightarrow>
          Some (Finished Returned,
                \<lparr>appended = [\<lparr>role = Assistant, content = response_text, images = None\<rparr>],
                 delivered = ds, logged = lg\<rparr>)
      | Some (Raises e, ds, lg) \<Rightarrow>
          Some (AwaitNotice,
                \<lparr>appended = [], delivered = ds @ [error_notice e],
                 logged = lg @ [py ''Error calling Ollama'']\<rparr>)
      | Some (Cancelled, ds, lg) \<Rightarrow>
          Some (Finished CancelledError, \<lparr>appended = [], delivered = ds, logged = lg\<rparr>))"
| "handle_prompt_step b64decode session_id prompt registered AwaitNotice Go =
     Some (Finished Returned, no_effects)"
| "handle_prompt_step b64decode session_id prompt registered AwaitNotice (Throw e) =
     Some (Finished (Raised (Failure e)), no_effects)"
| "handle_prompt_step b64decode session_id prompt registered AwaitNotice Cancel =
     Some (Finished CancelledError, no_effects)"
| "handle_prompt_step b64decode session_id prompt registered _ _ = None"

text \<open>A Run from a program point through a list of resumptions, its effects joined.\<close>

fun handle_prompt_run ::
  "decoder \<Rightarrow> pystr \<Rightarrow> block list \<Rightarrow> bool \<Rightarrow> pc \<Rightarrow> resume list \<Rightarrow> (pc \<times> effects) option" where
  "handle_prompt_run b64decode session_id prompt registered p [] = Some (p, no_effects)"
| "handle_prompt_run b64decode session_id prompt registered p (r # rs) =
     (case handle_prompt_step b64decode session_id prompt registered p r of
        None \<Rightarrow> None
      | Some (p', e1) \<Rightarrow>
          (case handle_prompt_run b64decode session_id prompt registered p' rs of
             None \<Rightarrow> None
           | Some (p'', e2) \<Rightarrow> Some (p'', join_effects e1 e2)))"

section \<open>The agent: sessions, tasks and the calls of the protocol\<close>

text \<open>
  \<open>AgentSession\<close> (lines 34-39). \<open>pending_prompt\<close> refers to a task; tasks are numbered
  in the order \<open>asyncio.create_task\<close> makes them.
\<close>

record session =
  pending_prompt :: "nat option"
  conversation_history :: "message list"

definition AgentSession :: session where
  "AgentSession = \<lparr>pending_prompt = None, conversation_history = []\<rparr>"

text \<open>What \<open>prompt\<close> gives its caller: a \<open>PromptResponse\<close> or the exception it raises.\<close>

datatype stop_reason = end_turn | cancelled

text \<open>
  A task made at line 162 runs \<open>handle_prompt(session_id, prompt)\<close>. \<open>must_cancel\<close> is
  set by \<open>Task.cancel()\<close> and makes the next step of the task throw \<open>CancelledError\<close>
  into the coroutine. Exactly one call of \<open>prompt\<close> awaits the task (line 167);
  \<open>prompt_result\<close> is \<open>None\<close> while that call is suspended there and holds what the
  call has given its caller afterwards.
\<close>

record task =
  task_session_id :: pystr
  task_prompt :: "block list"
  task_pc :: pc
  must_cancel :: bool
  prompt_result :: "(exn + stop_reason) option"

text \<open>
  The agent: \<open>self._sessions\<close>, the tasks of the event loop, the calls of
  \<open>self._conn.session_update\<close> in the order they were made, and the messages passed to
  \<open>logging\<close>. A session is never removed from \<open>self._sessions\<close>, so the session a
  coroutine holds in its variable \<open>session\<close> is the one registered under its identifier.
\<close>

record agent =
  sessions :: "pystr \<rightharpoonup> session"
  tasks :: "task list"
  sink :: "(pystr \<times> update) list"
  logs :: "pystr list"

definition OllamaAgent :: agent where
  "OllamaAgent = \<lparr>sessions = Map.empty, tasks = [], sink = [], logs = []\<rparr>"

text \<open>\<open>new_session\<close> (lines 127-143); the identifier is what \<open>secrets.token_hex(16)\<close> drew.\<close>

definition new_session :: "pystr \<Rightarrow> agent \<Rightarrow> agent" where
  "new_session session_id s =
     s\<lparr>sessions := (sessions s)(session_id \<mapsto> AgentSession),
       logs := logs s @ [py ''Created new session: '' @ session_id]\<rparr>"

text \<open>\<open>Task.cancel()\<close>: nothing on a task that is done, a request on any other.\<close>

definition task_cancel :: "nat \<Rightarrow> agent \<Rightarrow> agent" where
  "task_cancel t s =
     (if t < length (tasks s)
      then (case task_pc (tasks s ! t) of
              Finished r \<Rightarrow> s
            | _ \<Rightarrow> s\<lparr>tasks := (tasks s)[t := (tasks s ! t)\<lparr>must_cancel := True\<rparr>]\<rparr>)
      else s)"

text \<open>
  \<open>prompt\<close> from its entry to the \<open>await\<close> of line 167, where it is suspended
  (lines 152-167): nothing else runs in between.
\<close>

definition prompt_call :: "pystr \<Rightarrow> block list \<Rightarrow> agent \<Rightarrow> agent" where
  "prompt_call session_id prompt s =
     (let s1 = (case sessions s session_id of
                  Some found \<Rightarrow> s
                | None \<Rightarrow> s\<lparr>sessions := (sessions s)(session_id \<mapsto> AgentSession)\<rparr>);
          s2 = (case sessions s1 session_id of
                  None \<Rightarrow> s1
                | Some sess \<Rightarrow>
                    (case pending_prompt sess of
                       None \<Rightarrow> s1
                     | Some old \<Rightarrow> task_cancel old s1));
          t = length (tasks s2);
          created = \<lparr>task_session_id = session_id, task_prompt = prompt, task_pc = NotStarted,
                     must_cancel = False, prompt_result = None\<rparr>
      in s2\<lparr>tasks := tasks s2 @ [created],
            sessions := (case sessions s2 session_id of
                           None \<Rightarrow> sessions s2
                         | Some sess \<Rightarrow>
                             (sessions s2)(session_id \<mapsto> sess\<lparr>pending_prompt := Some t\<rparr>))\<rparr>)"

text \<open>
  \<open>prompt\<close> from the moment the task it awaits is done to its return (lines 167-176).
  The \<open>finally\<close> clause runs on each of the three ways out.
\<close>

definition prompt_return :: "nat \<Rightarrow> agent \<Rightarrow> agent option" where
  "prompt_return t s =
     (if t < length (tasks s) \<and> prompt_result (tasks s ! t) = None
      then
        (case task_pc (tasks s ! t) of
           Finished r \<Rightarrow>
             (let tk = tasks s ! t;
                  session_id = task_session_id tk;
                  answer = (case r of
                              Returned \<Rightarrow> Inr end_turn
                            | CancelledError \<Rightarrow> Inr cancelled
                            | Raised e \<Rightarrow> Inl e);
                  lg = (case r of Raised e \<Rightarrow> [py ''Error handling prompt''] | _ \<Rightarrow> [])
              in Some (s\<lparr>sessions := (case sessions s session_id of
                                          None \<Rightarrow> sessions s
                                        | Some sess \<Rightarrow>
                                            (sessions s)(session_id \<mapsto> sess\<lparr>pending_prompt := None\<rparr>)),
                          tasks := (tasks s)[t := tk\<lparr>prompt_result := Some answer\<rparr>],
                          logs := logs s @ lg\<rparr>))
         | _ \<Rightarrow> None)
      else None)"

text \<open>\<open>cancel\<close> (lines 283-287); it has no \<open>await\<close> and runs in one piece.\<close>

definition cancel :: "pystr \<Rightarrow> agent \<Rightarrow> agent" where
  "cancel session_id s =
     (case sessions s session_id of
        None \<Rightarrow> s
      | Some sess \<Rightarrow>
          (case pending_prompt sess of
             None \<Rightarrow> s
           | Some t \<Rightarrow> task_cancel t s))"

text \<open>The effects of a step of a task of session \<open>session_id\<close>, written to the agent.\<close>

definition apply_effects :: "pystr \<Rightarrow> effects \<Rightarrow> agent \<Rightarrow> agent" where
  "apply_effects session_id eff s =
     s\<lparr>sessions := (case sessions s session_id of
                      None \<Rightarrow> sessions s
                    | Some sess \<Rightarrow>
                        (sessions s)(session_id \<mapsto>
                           sess\<lparr>conversation_history := conversation_history sess @ appended eff\<rparr>)),
       sink := sink s @ map (Pair session_id) (delivered eff),
       logs := logs s @ logged eff\<rparr>"

text \<open>
  The event loop runs task \<open>t\<close> from its suspension point to the next one. A requested
  cancellation replaces whatever the task was waiting for; a cancellation comes from
  \<open>Task.cancel()\<close> only, never from the environment.
\<close>

definition task_step :: "decoder \<Rightarrow> nat \<Rightarrow> resume \<Rightarrow> agent \<Rightarrow> agent option" where
  "task_step b64decode t r s =
     (if t < length (tasks s) \<and> r \<noteq> Cancel
      then
        (let tk = tasks s ! t;
             session_id = task_session_id tk
         in case handle_prompt_step b64decode session_id (task_prompt tk)
                   (sessions s session_id \<noteq> None) (task_pc tk)
                   (if must_cancel tk then Cancel else r) of
              None \<Rightarrow> None
            | Some (p, eff) \<Rightarrow>
                Some (apply_effects session_id eff
                        (s\<lparr>tasks := (tasks s)[t := tk\<lparr>task_pc := p, must_cancel := False\<rparr>]\<rparr>)))
      else None)"

text \<open>
  What can happen next to the agent, and a schedule: a list of such actions run in order.
  A new session is drawn under an identifier that is not registered yet.
\<close>

datatype action =
    NewSession pystr
  | PromptCall pystr "block list"
  | PromptReturn nat
  | CancelCall pystr
  | Step nat resume

fun act :: "decoder \<Rightarrow> action \<Rightarrow> agent \<Rightarrow> agent option" where
  "act b64decode (NewSession session_id) s =
     (if sessions s session_id = None then Some (new_session session_id s) else None)"
| "act b64decode (PromptCall session_id prompt) s = Some (prompt_call session_id prompt s)"
| "act b64decode (PromptReturn t) s = prompt_return t s"
| "act b64decode (CancelCall session_id) s = Some (cancel session_id s)"
| "act b64decode (Step t r) s = task_step b64decode t r s"

fun exec :: "decoder \<Rightarrow> action list \<Rightarrow> agent \<Rightarrow> agent option" where
  "exec b64decode [] s = Some s"
| "exec b64decode (a # as) s =
     (case act b64decode a s of None \<Rightarrow> None | Some s' \<Rightarrow> exec b64decode as s')"

text \<open>The Runs of a session that are not done, oldest first.\<close>

definition unfinished :: "task \<Rightarrow> bool" where
  "unfinished tk = (case task_pc tk of Finished r \<Rightarrow> False | _ \<Rightarrow> True)"

definition active_runs :: "pystr \<Rightarrow> agent \<Rightarrow> nat list" where
  "active_runs session_id s =
     filter (\<lambda>t. task_session_id (tasks s ! t) = session_id \<and> unfinished (tasks s ! t))
       [0 ..< length (tasks s)]"

section \<open>Notions of the specification and worked examples\<close>

text \<open>
  The variant of a block is decided by the first branch of the loop that matches it: a
  text block is an object that has the attribute \<open>text\<close> (line 227) or a dict whose
  \<open>type\<close> is \<open>text\<close> (line 230); an image block is a block that is no text block and
  whose \<open>type\<close> is \<open>image\<close> (lines 232 and 242). \<open>text_content\<close> and \<open>image_data\<close>
  are what a block of the variant carries.
\<close>

fun is_text_block :: "block \<Rightarrow> bool" where
  "is_text_block (Obj a) = (a ''text'' \<noteq> None)"
| "is_text_block (Dict d) = (d ''type'' = Some (py ''text''))"

fun text_content :: "block \<Rightarrow> pystr" where
  "text_content (Obj a) = (case a ''text'' of Some t \<Rightarrow> t | None \<Rightarrow> [])"
| "text_content (Dict d) = (case d ''text'' of Some t \<Rightarrow> t | None \<Rightarrow> [])"



text \<open>
  The extracted text in the words of the specification: the contents of the text blocks,
  concatenated in the order of the prompt, trimmed once at the end.
\<close>

definition spec_prompt_text :: "block list \<Rightarrow> pystr" where
  "spec_prompt_text prompt = strip (concat (map text_content (filter is_text_block prompt)))"

text \<open>
  A decoder for the worked examples. It agrees with \<open>base64.b64decode\<close> on \<open>aGk=\<close>
  (the two bytes of \<open>hi\<close>) and on \<open>QQ\<close> (\<open>binascii.Error: Incorrect padding\<close>), and
  takes every other string for undecodable.
\<close>

definition sample_b64decode :: decoder where
  "sample_b64decode data =
     (if data = py ''aGk='' then Inr [104, 105] else Inl (py ''Incorrect padding''))"

text \<open>
  The text increment of a chunk as the driver reads it (lines 266-268), the chunks among
  the resumptions of a Run in the order of their arrival, and the text of an update.
\<close>

definition chunk_text :: "chunk \<Rightarrow> pystr" where
  "chunk_text chunk =
     (case chunk ''message'' of
        None \<Rightarrow> []
      | Some m \<Rightarrow> (case m ''content'' of Some c \<Rightarrow> c | None \<Rightarrow> []))"

fun arrived :: "resume list \<Rightarrow> chunk list" where
  "arrived [] = []"
| "arrived (Item chunk # rs) = chunk # arrived rs"
| "arrived (r # rs) = arrived rs"

fun update_text :: "update \<Rightarrow> pystr" where
  "update_text (AgentMessageText c) = c"

text \<open>The accumulator \<open>full_response\<close> at a suspension point of the driver.\<close>

fun full_response :: "stream_pc \<Rightarrow> pystr" where
  "full_response AwaitChat = []"
| "full_response (AwaitNext acc) = acc"
| "full_response (AwaitUpdate acc) = acc"

text \<open>A resumption that is a failure of the awaited call.\<close>

fun is_throw :: "resume \<Rightarrow> bool" where
  "is_throw (Throw e) = True"
| "is_throw r = False"

text \<open>What is seen of an agent: the history and the pending task of a session.\<close>

definition history_of :: "pystr \<Rightarrow> agent \<Rightarrow> message list" where
  "history_of session_id s =
     (case sessions s session_id of None \<Rightarrow> [] | Some sess \<Rightarrow> conversation_history sess)"

definition pending_of :: "pystr \<Rightarrow> agent \<Rightarrow> nat option" where
  "pending_of session_id s =
     (case sessions s session_id of None \<Rightarrow> None | Some sess \<Rightarrow> pending_prompt sess)"

text \<open>A prompt for the worked examples: one text block, \<open>hi\<close>.\<close>

definition hi_prompt :: "block list" where
  "hi_prompt = [Obj [''text'' \<mapsto> py ''hi'']]"

text \<open>
  States of the worked examples, for one session \<open>s\<close> and the prompt \<open>hi\<close>: after the
  call of \<open>prompt\<close>; after the first step of its task; and after a second call has
  superseded the first, whose task has ended cancelled while its caller has not resumed.
\<close>

definition hi_task :: "pc \<Rightarrow> bool \<Rightarrow> (exn + stop_reason) option \<Rightarrow> task" where
  "hi_task p c r =
     \<lparr>task_session_id = py ''s'', task_prompt = hi_prompt, task_pc = p, must_cancel = c,
      prompt_result = r\<rparr>"

definition hi_user :: message where
  "hi_user = \<lparr>role = User, content = py ''hi'', images = None\<rparr>"

definition example_created :: agent where
  "example_created =
     \<lparr>sessions = [py ''s'' \<mapsto> \<lparr>pending_prompt = Some 0, conversation_history = []\<rparr>],
      tasks = [hi_task NotStarted False None], sink = [], logs = []\<rparr>"

definition example_running :: agent where
  "example_running =
     \<lparr>sessions = [py ''s'' \<mapsto> \<lparr>pending_prompt = Some 0, conversation_history = [hi_user]\<rparr>],
      tasks = [hi_task (Streaming AwaitChat) False None], sink = [], logs = []\<rparr>"

definition example_superseded :: agent where
  "example_superseded =
     \<lparr>sessions = [py ''s'' \<mapsto> \<lparr>pending_prompt = Some 1,
                                 conversation_history = [hi_user, hi_user]\<rparr>],
      tasks = [hi_task (Finished CancelledError) False None,
               hi_task (Streaming AwaitChat) False None],
      sink = [], logs = []\<rparr>"


text \<open>
  Every task belongs to a registered session and none has raised the \<open>KeyError\<close> of
  line 180.
\<close>

definition tasks_registered :: "agent \<Rightarrow> bool" where
  "tasks_registered s \<longleftrightarrow>
     (\<forall>tk \<in> set (tasks s).
        sessions s (task_session_id tk) \<noteq> None \<and>
        (\<forall>k. task_pc tk \<noteq> Finished (Raised (KeyError k))))"

section \<open>Properties of the content extractor\<close>

lemma py_eq_iff [simp]: "py s = py t \<longleftrightarrow> s = t"
  by (simp add: py_def inj_map_eq_map inj_of_char)

lemma py_Nil_iff [simp]: "py s = [] \<longleftrightarrow> s = []"
  by (simp add: py_def)

lemma strip_Nil [simp]: "strip [] = []"
  by (simp add: strip_def)

lemma extract_block_acc:
  "extract_block dec b (t, i, l) =
     (case extract_block dec b ([], [], []) of (t', i', l') \<Rightarrow> (t @ t', i @ i', l @ l'))"
proof (cases b)
  case (Obj a)
  show ?thesis
    unfolding Obj
    by (simp add: decode_image_def split: option.splits sum.splits)
next
  case (Dict d)
  show ?thesis
    unfolding Dict
    by (simp add: decode_image_def split: option.splits sum.splits)
qed

lemma extract_loop_acc:
  "extract_loop dec bs (t, i, l) =
     (case extract_loop dec bs ([], [], []) of (t', i', l') \<Rightarrow> (t @ t', i @ i', l @ l'))"
proof (induction bs arbitrary: t i l)
  case Nil
  show ?case by simp
next
  case (Cons b bs)
  obtain t1 i1 l1 where b: "extract_block dec b ([], [], []) = (t1, i1, l1)"
    by (cases "extract_block dec b ([], [], [])") auto
  have step: "extract_block dec b (t, i, l) = (t @ t1, i @ i1, l @ l1)"
    using extract_block_acc [of dec b t i l] b by simp
  obtain t2 i2 l2 where r: "extract_loop dec bs ([], [], []) = (t2, i2, l2)"
    by (cases "extract_loop dec bs ([], [], [])") auto
  show ?case
    using Cons.IH [of "t @ t1" "i @ i1" "l @ l1"] Cons.IH [of t1 i1 l1] step b r
    by simp
qed

lemma extract_loop_append:
  "extract_loop dec (xs @ ys) acc = extract_loop dec ys (extract_loop dec xs acc)"
  by (induction xs arbitrary: acc) simp_all

text \<open>The loop on \<open>xs @ b # ys\<close>, from what it gives on the three parts.\<close>

lemma extract_loop_split:
  assumes xs: "extract_loop dec xs ([], [], []) = (t1, i1, l1)"
    and b: "extract_block dec b ([], [], []) = (tb, ib, lb)"
    and ys: "extract_loop dec ys ([], [], []) = (t2, i2, l2)"
  shows "extract_loop dec (xs @ b # ys) ([], [], []) =
           (t1 @ tb @ t2, i1 @ ib @ i2, l1 @ lb @ l2)"
proof -
  have "extract_block dec b (t1, i1, l1) = (t1 @ tb, i1 @ ib, l1 @ lb)"
    using extract_block_acc [of dec b t1 i1 l1] b by simp
  moreover have "extract_loop dec ys (t1 @ tb, i1 @ ib, l1 @ lb) =
                   ((t1 @ tb) @ t2, (i1 @ ib) @ i2, (l1 @ lb) @ l2)"
    using extract_loop_acc [of dec ys "t1 @ tb" "i1 @ ib" "l1 @ lb"] ys by simp
  ultimately show ?thesis
    by (simp add: extract_loop_append xs)
qed


lemma extract_block_text:
  "fst (extract_block dec b acc) = fst acc @ (if is_text_block b then text_content b else [])"
proof (cases acc)
  case (fields t i l)
  show ?thesis
  proof (cases b)
    case (Obj a)
    show ?thesis
      unfolding Obj fields
      by (cases "a ''text''") (simp_all split: prod.splits)
  next
    case (Dict d)
    show ?thesis
      unfolding Dict fields
      by (simp split: prod.splits)
  qed
qed

lemma extract_loop_text:
  "fst (extract_loop dec bs acc) = fst acc @ concat (map text_content (filter is_text_block bs))"
  by (induction bs arbitrary: acc) (simp_all add: extract_block_text)


text \<open>
  C6. For every sequence of prompt blocks and every decoder, the text that
  \<open>_extract_content_from_prompt\<close> returns is the concatenation of the contents of the
  text blocks in the order of the prompt, with the whitespace at both ends removed from
  the concatenation as a whole and from no single block.
\<close>

theorem extracted_text_is_trimmed_concatenation:
  "fst (fst (extract_content_from_prompt dec prompt)) = spec_prompt_text prompt"
proof -
  obtain t i l where r: "extract_loop dec prompt ([], [], []) = (t, i, l)"
    by (cases "extract_loop dec prompt ([], [], [])") auto
  have "t = concat (map text_content (filter is_text_block prompt))"
    using extract_loop_text [of dec prompt "([], [], [])"] r by simp
  then show ?thesis
    by (simp add: extract_content_from_prompt_def spec_prompt_text_def r)
qed

text \<open>
  The blanks between two blocks stay, the blanks at the two ends of the prompt go: the
  blocks \<open>" a "\<close> and \<open>" b "\<close> give \<open>"a  b"\<close>.
\<close>

theorem extracted_text_is_trimmed_concatenation_witness:
  "fst (fst (extract_content_from_prompt sample_b64decode
       [Obj [''text'' \<mapsto> py '' a ''], Dict [''type'' \<mapsto> py ''text'', ''text'' \<mapsto> py '' b '']]))
     = py ''a  b''"
  using extracted_text_is_trimmed_concatenation [of sample_b64decode
       "[Obj [''text'' \<mapsto> py '' a ''], Dict [''type'' \<mapsto> py ''text'', ''text'' \<mapsto> py '' b '']]"]
  by (simp add: spec_prompt_text_def strip_def isspace_def py_def)



text \<open>
  C10. Let a block be an object that has the attribute \<open>text\<close>, whose \<open>type\<close> is
  \<open>image\<close> and whose \<open>data\<close> is not empty and decodes to \<open>raw\<close>. One iteration of the
  loop appends its text to \<open>prompt_text\<close> and \<open>raw\<close> to \<open>images\<close>, both; so a prompt
  that contains the block has its text between the texts of the blocks before and after
  it, and \<open>raw\<close> between their images.
\<close>

theorem object_with_text_and_image_contributes_twice:
  assumes "a ''text'' = Some t" and "a ''type'' = Some (py ''image'')"
    and "a ''data'' = Some d" and "d \<noteq> []" and "dec d = Inr raw"
  shows "extract_block dec (Obj a) (prompt_text, imgs, lg) = (prompt_text @ t, imgs @ [raw], lg)
         \<and> extract_loop dec (xs @ Obj a # ys) ([], [], []) =
             (case extract_loop dec xs ([], [], []) of (t1, i1, l1) \<Rightarrow>
              case extract_loop dec ys ([], [], []) of (t2, i2, l2) \<Rightarrow>
                (t1 @ t @ t2, i1 @ [raw] @ i2, l1 @ l2))
         \<and> extract_content_from_prompt dec [Obj a] = ((strip t, [raw]), [])"
proof -
  have step: "extract_block dec (Obj a) (p, i, l) = (p @ t, i @ [raw], l)" for p i l
    using assms by (simp add: decode_image_def)
  obtain t1 i1 l1 where xs: "extract_loop dec xs ([], [], []) = (t1, i1, l1)"
    by (cases "extract_loop dec xs ([], [], [])") auto
  obtain t2 i2 l2 where ys: "extract_loop dec ys ([], [], []) = (t2, i2, l2)"
    by (cases "extract_loop dec ys ([], [], [])") auto
  have b: "extract_block dec (Obj a) ([], [], []) = (t, [raw], [])"
    using step [of "[]" "[]" "[]"] by simp
  have whole: "extract_loop dec (xs @ Obj a # ys) ([], [], []) =
                 (t1 @ t @ t2, i1 @ [raw] @ i2, l1 @ [] @ l2)"
    using xs b ys by (rule extract_loop_split)
  have alone: "extract_loop dec [Obj a] ([], [], []) = (t, [raw], [])"
    using b by simp
  show ?thesis
    using whole
    by (simp add: step xs ys extract_content_from_prompt_def alone
          del: extract_block.simps extract_loop.simps)
qed

theorem object_with_text_and_image_contributes_twice_witness:
  "[''text'' \<mapsto> py ''cat'', ''type'' \<mapsto> py ''image'', ''data'' \<mapsto> py ''aGk=''] ''text'' = Some (py ''cat'')
   \<and> [''text'' \<mapsto> py ''cat'', ''type'' \<mapsto> py ''image'', ''data'' \<mapsto> py ''aGk=''] ''type'' = Some (py ''image'')
   \<and> [''text'' \<mapsto> py ''cat'', ''type'' \<mapsto> py ''image'', ''data'' \<mapsto> py ''aGk=''] ''data'' = Some (py ''aGk='')
   \<and> py ''aGk='' \<noteq> [] \<and> sample_b64decode (py ''aGk='') = Inr [104, 105]
   \<and> extract_content_from_prompt sample_b64decode
        [Obj [''text'' \<mapsto> py ''cat'', ''type'' \<mapsto> py ''image'', ''data'' \<mapsto> py ''aGk='']]
      = ((py ''cat'', [[104, 105]]), [])"
proof -
  have cat: "strip (py ''cat'') = py ''cat''"
    by (simp add: strip_def isspace_def py_def)
  show ?thesis
    using object_with_text_and_image_contributes_twice
      [of "[''text'' \<mapsto> py ''cat'', ''type'' \<mapsto> py ''image'', ''data'' \<mapsto> py ''aGk='']"
          "py ''cat''" "py ''aGk=''" sample_b64decode "[104, 105]" "[]" "[]" "[]" "[]" "[]"]
    by (simp add: sample_b64decode_def cat)
qed

section \<open>Properties of the streaming driver\<close>

lemma stream_step_Suspended:
  assumes "stream_ollama_response_step spc r = Some (Suspended spc', ds, lg)"
  shows "full_response spc' = full_response spc @ concat (map update_text ds)
         \<and> ds = map AgentMessageText (filter (\<lambda>c. c \<noteq> []) (map chunk_text (arrived [r])))"
  using assms
  by (cases spc; cases r) (auto simp: chunk_text_def Let_def split: option.splits if_splits)

lemma stream_step_Returns:
  assumes "stream_ollama_response_step spc r = Some (Returns text, ds, lg)"
  shows "text = full_response spc \<and> ds = [] \<and> arrived [r] = []"
  using assms
  by (cases spc; cases r) (auto simp: Let_def split: option.splits if_splits)

lemma arrived_Cons: "arrived (r # rs) = arrived [r] @ arrived rs"
  by (cases r) simp_all

lemma stream_run_Returns:
  assumes "stream_ollama_response_run spc rs = Some (Returns text, ds, lg)"
  shows "text = full_response spc @ concat (map update_text ds)
         \<and> ds = map AgentMessageText (filter (\<lambda>c. c \<noteq> []) (map chunk_text (arrived rs)))"
  using assms
proof (induction rs arbitrary: spc ds lg)
  case Nil
  then show ?case by simp
next
  case (Cons r rs)
  from Cons.prems obtain out ds1 lg1
    where step: "stream_ollama_response_step spc r = Some (out, ds1, lg1)"
    by (auto split: option.splits)
  show ?case
  proof (cases out)
    case (Suspended spc')
    with Cons.prems step obtain ds2 lg2
      where run: "stream_ollama_response_run spc' rs = Some (Returns text, ds2, lg2)"
        and ds: "ds = ds1 @ ds2"
      by (auto split: option.splits)
    from Cons.IH [OF run] stream_step_Suspended [OF step [unfolded Suspended]] ds
    show ?thesis
      by (simp add: arrived_Cons [of r rs])
  next
    case (Returns text')
    with Cons.prems step have "rs = []" and "text' = text" and "ds = ds1"
      by (auto split: if_splits)
    with stream_step_Returns [OF step [unfolded Returns]]
    show ?thesis by simp
  next
    case (Raises e)
    with Cons.prems step show ?thesis by (auto split: if_splits)
  next
    case Cancelled
    with Cons.prems step show ?thesis by (auto split: if_splits)
  qed
qed

text \<open>
  A stream that does not fail and is not cancelled is driven to its end: \<open>chat\<close>
  returns, each chunk arrives, each chunk with text is followed by the return of
  \<open>session_update\<close>, and the iteration stops.
\<close>

lemma stream_chunks_then_stop:
  "stream_ollama_response_run (AwaitNext acc)
     (concat (map (\<lambda>c. if chunk_text c \<noteq> [] then [Item c, Go] else [Item c]) cs) @
      [StopAsyncIteration])
   = Some (Returns (acc @ concat (map chunk_text cs)),
           map AgentMessageText (filter (\<lambda>c. c \<noteq> []) (map chunk_text cs)), [])"
proof (induction cs arbitrary: acc)
  case Nil
  show ?case by simp
next
  case (Cons c cs)
  show ?case
  proof (cases "chunk_text c = []")
    case True
    then have "stream_ollama_response_step (AwaitNext acc) (Item c) =
                 Some (Suspended (AwaitNext acc), [], [])"
      by (auto simp: chunk_text_def split: option.splits)
    with True Cons.IH [of acc] show ?thesis by simp
  next
    case False
    then have "stream_ollama_response_step (AwaitNext acc) (Item c) =
                 Some (Suspended (AwaitUpdate (acc @ chunk_text c)),
                       [AgentMessageText (chunk_text c)], [])"
      by (auto simp: chunk_text_def split: option.splits)
    with False Cons.IH [of "acc @ chunk_text c"] show ?thesis by simp
  qed
qed

text \<open>
  C5. Whenever the streaming driver, started at the call of \<open>chat\<close>, returns a text, that
  text is the concatenation, in order, of the texts of the updates it passed to
  \<open>session_update\<close>, and these updates are the non-empty text increments of the chunks
  that arrived, one update for each, in the order of arrival.
\<close>

theorem streamed_text_is_what_was_delivered:
  assumes "stream_ollama_response_run AwaitChat rs = Some (Returns text, ds, lg)"
  shows "text = concat (map update_text ds)
         \<and> ds = map AgentMessageText (filter (\<lambda>c. c \<noteq> []) (map chunk_text (arrived rs)))"
  using stream_run_Returns [OF assms] by simp

theorem streamed_text_is_what_was_delivered_witness:
  "stream_ollama_response_run AwaitChat
     [Go, Item [''message'' \<mapsto> [''content'' \<mapsto> py ''Hel'']], Go, Item Map.empty,
      Item [''message'' \<mapsto> Map.empty], Item [''message'' \<mapsto> [''content'' \<mapsto> py ''lo'']], Go,
      StopAsyncIteration]
     = Some (Returns (py ''Hello''), [AgentMessageText (py ''Hel''), AgentMessageText (py ''lo'')], [])
   \<and> py ''Hello'' = concat (map update_text [AgentMessageText (py ''Hel''), AgentMessageText (py ''lo'')])"
proof -
  have run: "stream_ollama_response_run AwaitChat
     [Go, Item [''message'' \<mapsto> [''content'' \<mapsto> py ''Hel'']], Go, Item Map.empty,
      Item [''message'' \<mapsto> Map.empty], Item [''message'' \<mapsto> [''content'' \<mapsto> py ''lo'']], Go,
      StopAsyncIteration]
     = Some (Returns (py ''Hello''), [AgentMessageText (py ''Hel''), AgentMessageText (py ''lo'')], [])"
    by (simp add: py_def Let_def)
  show ?thesis
    using streamed_text_is_what_was_delivered [OF run] run
    by (simp add: chunk_text_def py_def)
qed

section \<open>Properties of one Run\<close>

lemma concat_filter_nonempty: "concat (filter (\<lambda>c. c \<noteq> []) xs) = concat xs"
  by (induction xs) simp_all

lemma run_Finished:
  assumes "handle_prompt_run dec sid prompt reg (Finished res) rs = Some (p, eff)"
  shows "rs = [] \<and> p = Finished res \<and> eff = no_effects"
  using assms by (cases rs) simp_all

lemma join_no_effects [simp]:
  "join_effects e no_effects = e" "join_effects no_effects e = e"
  by (simp_all add: join_effects_def no_effects_def)

lemma run_AwaitNotice:
  assumes "handle_prompt_run dec sid prompt reg AwaitNotice rs = Some (p, eff)"
  shows "eff = no_effects"
proof (cases rs)
  case Nil
  with assms show ?thesis by simp
next
  case (Cons r rest)
  with assms obtain p1 e1 p2 e2
    where step: "handle_prompt_step dec sid prompt reg AwaitNotice r = Some (p1, e1)"
      and run: "handle_prompt_run dec sid prompt reg p1 rest = Some (p2, e2)"
      and eff: "eff = join_effects e1 e2"
    by (auto split: option.splits)
  from step obtain res where p1: "p1 = Finished res" and e1: "e1 = no_effects"
    by (cases r) auto
  from run_Finished [OF run [unfolded p1]] eff e1 show ?thesis by simp
qed

lemma run_Streaming_appended:
  assumes "handle_prompt_run dec sid prompt reg (Streaming spc) rs = Some (Finished res, eff)"
  shows "appended eff =
           (if res = Returned \<and> \<not> list_ex is_throw rs
            then [\<lparr>role = Assistant,
                   content = full_response spc @ concat (map chunk_text (arrived rs)),
                   images = None\<rparr>]
            else [])"
  using assms
proof (induction rs arbitrary: spc eff)
  case Nil
  then show ?case by simp
next
  case (Cons r rs)
  from Cons.prems obtain p1 e1 p2 e2
    where step: "handle_prompt_step dec sid prompt reg (Streaming spc) r = Some (p1, e1)"
      and run: "handle_prompt_run dec sid prompt reg p1 rs = Some (Finished res, e2)"
      and eff: "eff = join_effects e1 e2"
    by (auto split: option.splits)
  from step obtain out ds lg
    where sstep: "stream_ollama_response_step spc r = Some (out, ds, lg)"
    by (auto split: option.splits)
  show ?case
  proof (cases out)
    case (Suspended spc')
    with step sstep have p1: "p1 = Streaming spc'" and e1: "appended e1 = []"
      by auto
    from sstep Suspended have nt: "\<not> is_throw r"
      by (cases r) auto
    from stream_step_Suspended [OF sstep [unfolded Suspended]]
    have "full_response spc' = full_response spc @ concat (map chunk_text (arrived [r]))"
      by (simp add: concat_filter_nonempty comp_def)
    with Cons.IH [OF run [unfolded p1]] eff e1 nt show ?thesis
      by (simp add: join_effects_def arrived_Cons [of r rs])
  next
    case (Returns resp)
    with step sstep have p1: "p1 = Finished Returned"
      and e1: "appended e1 = [\<lparr>role = Assistant, content = resp, images = None\<rparr>]"
      by auto
    from stream_step_Returns [OF sstep [unfolded Returns]]
    have resp: "resp = full_response spc" and ar: "arrived [r] = []" by simp_all
    from sstep Returns have nt: "\<not> is_throw r"
      by (cases r) auto
    from run_Finished [OF run [unfolded p1]] eff e1 resp ar nt show ?thesis
      by simp
  next
    case (Raises e)
    with step sstep have p1: "p1 = AwaitNotice" and e1: "appended e1 = []"
      by auto
    from sstep Raises have t: "is_throw r"
      by (cases spc; cases r) (auto simp: Let_def split: option.splits if_splits)
    from run_AwaitNotice [OF run [unfolded p1]] eff e1 t show ?thesis
      by (simp add: join_effects_def no_effects_def)
  next
    case Cancelled
    with step sstep have p1: "p1 = Finished CancelledError" and e1: "appended e1 = []"
      by auto
    from run_Finished [OF run [unfolded p1]] eff e1 show ?thesis
      by (simp add: join_effects_def no_effects_def)
  qed
qed


section \<open>Properties of the agent\<close>

subsection \<open>Steps of a task\<close>

lemma step_Cancel:
  assumes "\<forall>res. p \<noteq> Finished res"
  shows "handle_prompt_step dec sid prompt reg p Cancel = Some (Finished CancelledError, no_effects)"
  using assms by (cases p) (simp_all add: no_effects_def)

lemma unfinished_iff: "unfinished tk \<longleftrightarrow> (\<forall>res. task_pc tk \<noteq> Finished res)"
  by (cases "task_pc tk") (simp_all add: unfinished_def)

lemma task_cancel_unfinished:
  assumes "t < length (tasks s)" and "unfinished (tasks s ! t)"
  shows "task_cancel t s = s\<lparr>tasks := (tasks s)[t := (tasks s ! t)\<lparr>must_cancel := True\<rparr>]\<rparr>"
  using assms by (cases "task_pc (tasks s ! t)") (simp_all add: task_cancel_def unfinished_def)

lemma apply_no_effects [simp]: "apply_effects sid no_effects s = s"
proof (cases "sessions s sid")
  case None
  then show ?thesis by (simp add: apply_effects_def no_effects_def)
next
  case (Some sess)
  then have "(sessions s)(sid \<mapsto> sess) = sessions s"
    by (simp add: map_upd_triv)
  with Some show ?thesis by (simp add: apply_effects_def no_effects_def)
qed

lemma task_step_cancelled:
  assumes "t < length (tasks s)" and "unfinished (tasks s ! t)" and "must_cancel (tasks s ! t)"
    and "r \<noteq> Cancel"
  shows "task_step dec t r s =
           Some (s\<lparr>tasks := (tasks s)[t := (tasks s ! t)\<lparr>task_pc := Finished CancelledError,
                                                      must_cancel := False\<rparr>]\<rparr>)"
proof -
  have "handle_prompt_step dec (task_session_id (tasks s ! t)) (task_prompt (tasks s ! t))
          (sessions s (task_session_id (tasks s ! t)) \<noteq> None) (task_pc (tasks s ! t)) Cancel
        = Some (Finished CancelledError, no_effects)"
    using assms(2) by (intro step_Cancel) (simp add: unfinished_iff)
  with assms show ?thesis
    by (simp add: task_step_def Let_def)
qed


lemma apply_effects_tasks [simp]: "tasks (apply_effects sid eff s) = tasks s"
  by (simp add: apply_effects_def)




subsection \<open>The worked examples\<close>

lemma strip_hi [simp]: "strip (py ''hi'') = py ''hi''"
  by (simp add: strip_def isspace_def py_def)

lemma extract_hi [simp]:
  "extract_content_from_prompt dec hi_prompt = ((py ''hi'', []), [])"
  by (simp add: extract_content_from_prompt_def hi_prompt_def)

lemmas run_simps = prompt_call_def prompt_return_def cancel_def task_step_def task_cancel_def
  apply_effects_def OllamaAgent_def AgentSession_def no_effects_def Let_def
  hi_task_def hi_user_def

lemma reach_created:
  "exec dec [PromptCall (py ''s'') hi_prompt] OllamaAgent = Some example_created"
  by (simp add: run_simps example_created_def)

lemma reach_running:
  "exec dec [Step 0 Go] example_created = Some example_running"
  by (simp add: run_simps example_created_def example_running_def)

lemma reach_superseded:
  "exec dec [PromptCall (py ''s'') hi_prompt, Step 0 Go, Step 1 Go] example_running
     = Some example_superseded"
  by (simp add: run_simps example_running_def example_superseded_def)

lemma exec_append:
  "exec dec (xs @ ys) s = (case exec dec xs s of None \<Rightarrow> None | Some s' \<Rightarrow> exec dec ys s')"
  by (induction xs arbitrary: s) (simp_all split: option.splits)

subsection \<open>Sessions stay registered\<close>

lemma step_no_KeyError:
  assumes "handle_prompt_step dec sid prompt True p r = Some (p', eff)"
  shows "p' \<noteq> Finished (Raised (KeyError k))"
proof (cases p)
  case NotStarted
  with assms show ?thesis
    by (cases r) (auto simp: Let_def split: prod.splits if_splits)
next
  case (Streaming spc)
  with assms show ?thesis
    by (auto split: option.splits prod.splits stream_outcome.splits)
next
  case AwaitNotice
  with assms show ?thesis by (cases r) auto
next
  case (Finished res)
  with assms show ?thesis by simp
qed

lemma tasks_registered_update:
  assumes "tasks_registered s" and "t < length (tasks s)"
    and "task_session_id tk = task_session_id (tasks s ! t)"
    and "\<forall>k. task_pc tk \<noteq> Finished (Raised (KeyError k))"
    and "\<forall>sid. sessions s sid \<noteq> None \<longrightarrow> sessions s' sid \<noteq> None"
    and "tasks s' = (tasks s)[t := tk]"
  shows "tasks_registered s'"
  unfolding tasks_registered_def
proof
  fix x assume "x \<in> set (tasks s')"
  then have "x = tk \<or> x \<in> set (tasks s)"
    using assms(6) set_update_subset_insert [of "tasks s" t tk] by auto
  moreover have "tasks s ! t \<in> set (tasks s)"
    using assms(2) by simp
  ultimately show "sessions s' (task_session_id x) \<noteq> None \<and>
                   (\<forall>k. task_pc x \<noteq> Finished (Raised (KeyError k)))"
    using assms(1,3,4,5) unfolding tasks_registered_def by metis
qed

lemma task_cancel_registered:
  assumes "tasks_registered s"
  shows "tasks_registered (task_cancel t s)"
proof (cases "t < length (tasks s) \<and> unfinished (tasks s ! t)")
  case True
  let ?tk = "(tasks s ! t)\<lparr>must_cancel := True\<rparr>"
  have eq: "task_cancel t s = s\<lparr>tasks := (tasks s)[t := ?tk]\<rparr>"
    using True by (simp add: task_cancel_unfinished)
  have mem: "tasks s ! t \<in> set (tasks s)" using True by simp
  have a: "task_session_id ?tk = task_session_id (tasks s ! t)" by simp
  have b: "\<forall>k. task_pc ?tk \<noteq> Finished (Raised (KeyError k))"
    using assms mem unfolding tasks_registered_def by simp
  have c: "\<forall>sid. sessions s sid \<noteq> None \<longrightarrow>
             sessions (s\<lparr>tasks := (tasks s)[t := ?tk]\<rparr>) sid \<noteq> None"
    by simp
  have d: "tasks (s\<lparr>tasks := (tasks s)[t := ?tk]\<rparr>) = (tasks s)[t := ?tk]"
    by simp
  from True have t: "t < length (tasks s)" by simp
  show ?thesis
    unfolding eq by (rule tasks_registered_update [OF assms t a b c d])
next
  case False
  then have "task_cancel t s = s"
    by (cases "task_pc (tasks s ! t)") (simp_all add: task_cancel_def unfinished_def)
  with assms show ?thesis by simp
qed

lemma task_cancel_sessions [simp]: "sessions (task_cancel t s) = sessions s"
  by (cases "task_pc (tasks s ! t)") (simp_all add: task_cancel_def)

lemma tasks_registered_extend:
  assumes "tasks_registered s2"
  shows "tasks_registered
           (s2\<lparr>tasks := tasks s2 @
                  [\<lparr>task_session_id = sid, task_prompt = prompt, task_pc = NotStarted,
                    must_cancel = False, prompt_result = None\<rparr>],
               sessions := (sessions s2)(sid \<mapsto> x)\<rparr>)"
  using assms by (auto simp: tasks_registered_def)

lemma prompt_call_registered:
  assumes "tasks_registered s"
  shows "tasks_registered (prompt_call sid prompt s)"
proof (cases "sessions s sid")
  case None
  then have "prompt_call sid prompt s =
               s\<lparr>tasks := tasks s @
                      [\<lparr>task_session_id = sid, task_prompt = prompt, task_pc = NotStarted,
                        must_cancel = False, prompt_result = None\<rparr>],
                 sessions := (sessions s)(sid \<mapsto> AgentSession\<lparr>pending_prompt := Some (length (tasks s))\<rparr>)\<rparr>"
    by (simp add: prompt_call_def Let_def AgentSession_def)
  with tasks_registered_extend [OF assms] show ?thesis by simp
next
  case (Some sess)
  show ?thesis
  proof (cases "pending_prompt sess")
    case None
    with Some have "prompt_call sid prompt s =
               s\<lparr>tasks := tasks s @
                      [\<lparr>task_session_id = sid, task_prompt = prompt, task_pc = NotStarted,
                        must_cancel = False, prompt_result = None\<rparr>],
                 sessions := (sessions s)(sid \<mapsto> sess\<lparr>pending_prompt := Some (length (tasks s))\<rparr>)\<rparr>"
      by (simp add: prompt_call_def Let_def)
    with tasks_registered_extend [OF assms] show ?thesis by simp
  next
    case (Some old)
    define s2 where "s2 = task_cancel old s"
    have r2: "tasks_registered s2"
      using assms by (simp add: s2_def task_cancel_registered)
    have "sessions s2 = sessions s"
      by (simp add: s2_def)
    with Some \<open>sessions s sid = Some sess\<close> have "prompt_call sid prompt s =
               s2\<lparr>tasks := tasks s2 @
                      [\<lparr>task_session_id = sid, task_prompt = prompt, task_pc = NotStarted,
                        must_cancel = False, prompt_result = None\<rparr>],
                  sessions := (sessions s2)(sid \<mapsto> sess\<lparr>pending_prompt := Some (length (tasks s2))\<rparr>)\<rparr>"
      by (simp add: prompt_call_def Let_def s2_def)
    with tasks_registered_extend [OF r2] show ?thesis by simp
  qed
qed

lemma prompt_return_registered:
  assumes "tasks_registered s" and "prompt_return t s = Some s'"
  shows "tasks_registered s'"
proof -
  from assms(2) have t: "t < length (tasks s)"
    by (simp add: prompt_return_def split: if_splits)
  from assms(2) t obtain res where pc: "task_pc (tasks s ! t) = Finished res"
    by (cases "task_pc (tasks s ! t)") (simp_all add: prompt_return_def split: if_splits)
  let ?tk = "(tasks s ! t)\<lparr>prompt_result :=
               Some (case res of Returned \<Rightarrow> Inr end_turn | CancelledError \<Rightarrow> Inr cancelled
                     | Raised e \<Rightarrow> Inl e)\<rparr>"
  have ts: "tasks s' = (tasks s)[t := ?tk]"
    using assms(2) t pc
    by (auto simp: prompt_return_def Let_def split: if_splits)
  have ss: "\<forall>sid. sessions s sid \<noteq> None \<longrightarrow> sessions s' sid \<noteq> None"
    using assms(2) t pc
    by (auto simp: prompt_return_def Let_def split: if_splits option.splits)
  have mem: "tasks s ! t \<in> set (tasks s)" using t by simp
  have a: "task_session_id ?tk = task_session_id (tasks s ! t)" by simp
  have b: "\<forall>k. task_pc ?tk \<noteq> Finished (Raised (KeyError k))"
    using assms(1) mem unfolding tasks_registered_def by simp
  show ?thesis
    by (rule tasks_registered_update [OF assms(1) t a b ss ts])
qed

lemma task_step_registered:
  assumes "tasks_registered s" and "task_step dec t r s = Some s'"
  shows "tasks_registered s'"
proof -
  let ?tk = "tasks s ! t"
  from assms(2) have t: "t < length (tasks s)"
    by (simp add: task_step_def split: if_splits)
  then have mem: "?tk \<in> set (tasks s)" by simp
  with assms(1) have reg: "sessions s (task_session_id ?tk) \<noteq> None"
    unfolding tasks_registered_def by simp
  from assms(2) t reg obtain p eff
    where hs: "handle_prompt_step dec (task_session_id ?tk) (task_prompt ?tk) True (task_pc ?tk)
                 (if must_cancel ?tk then Cancel else r) = Some (p, eff)"
      and s': "s' = apply_effects (task_session_id ?tk) eff
                      (s\<lparr>tasks := (tasks s)[t := ?tk\<lparr>task_pc := p, must_cancel := False\<rparr>]\<rparr>)"
    by (auto simp: task_step_def Let_def split: if_splits option.splits)
  have ts: "tasks s' = (tasks s)[t := ?tk\<lparr>task_pc := p, must_cancel := False\<rparr>]"
    by (simp add: s')
  have ss: "\<forall>sid. sessions s sid \<noteq> None \<longrightarrow> sessions s' sid \<noteq> None"
    by (simp add: s' apply_effects_def split: option.splits)
  have a: "task_session_id (?tk\<lparr>task_pc := p, must_cancel := False\<rparr>) = task_session_id ?tk"
    by simp
  have b: "\<forall>k. task_pc (?tk\<lparr>task_pc := p, must_cancel := False\<rparr>) \<noteq> Finished (Raised (KeyError k))"
    using step_no_KeyError [OF hs] by simp
  show ?thesis
    by (rule tasks_registered_update [OF assms(1) t a b ss ts])
qed

lemma act_registered:
  assumes "tasks_registered s" and "act dec a s = Some s'"
  shows "tasks_registered s'"
proof (cases a)
  case (NewSession sid)
  with assms(2) have "s' = new_session sid s"
    by (simp split: if_splits)
  with assms(1) show ?thesis
    by (simp add: new_session_def tasks_registered_def)
next
  case (PromptCall sid prompt)
  with assms show ?thesis by (auto simp: prompt_call_registered)
next
  case (PromptReturn t)
  with assms show ?thesis by (auto simp: prompt_return_registered)
next
  case (CancelCall sid)
  with assms(2) have "s' = cancel sid s" by simp
  with assms(1) show ?thesis
    by (simp add: cancel_def task_cancel_registered split: option.splits)
next
  case (Step t r)
  with assms show ?thesis by (auto simp: task_step_registered)
qed

lemma exec_registered:
  assumes "tasks_registered s" and "exec dec acts s = Some s'"
  shows "tasks_registered s'"
  using assms
proof (induction acts arbitrary: s)
  case Nil
  then show ?case by simp
next
  case (Cons a acts)
  from Cons.prems(2) obtain s1 where a: "act dec a s = Some s1"
    and rest: "exec dec acts s1 = Some s'"
    by (auto split: option.splits)
  from act_registered [OF Cons.prems(1) a] rest show ?case
    by (rule Cons.IH)
qed

text \<open>
  From the fresh agent, whatever is scheduled, no task ever ends with the \<open>KeyError\<close> of
  line 180: the session of a task is registered before the task is made, and no session
  is removed.
\<close>

lemma no_KeyError_is_ever_raised:
  assumes "exec dec acts OllamaAgent = Some s" and "t < length (tasks s)"
  shows "task_pc (tasks s ! t) \<noteq> Finished (Raised (KeyError k))"
proof -
  have "tasks_registered OllamaAgent"
    by (simp add: tasks_registered_def OllamaAgent_def)
  from exec_registered [OF this assms(1)] have "tasks_registered s" .
  moreover have "tasks s ! t \<in> set (tasks s)"
    using assms(2) by simp
  ultimately show ?thesis
    unfolding tasks_registered_def by blast
qed


subsection \<open>History and sink\<close>

text \<open>
  C3, as amended. A Run whose task is resumed for the first time either starts (\<open>Go\<close>) or
  is cancelled before its body has run (\<open>Cancel\<close>); its session is registered, as the
  session of every task of the agent is. When it has started on a prompt whose
  extracted content is not empty and has ended, it has appended to the history exactly
  two messages, the user message and then the assistant message with the streamed text,
  if it returned and nothing failed, and exactly the user message if it was cancelled.
  It has appended nothing when the extracted content is empty, and nothing when it was
  cancelled before its first step.
\<close>

theorem history_growth_of_a_run:
  assumes run: "handle_prompt_run dec sid prompt True NotStarted (r # rs) = Some (Finished res, eff)"
    and ex: "extract_content_from_prompt dec prompt = ((prompt_text, imgs), lg)"
  shows "(r = Go \<and> (prompt_text \<noteq> [] \<or> imgs \<noteq> []) \<and> res = Returned \<and> \<not> list_ex is_throw rs \<longrightarrow>
            appended eff =
              [\<lparr>role = User, content = prompt_text,
                images = (if imgs \<noteq> [] then Some imgs else None)\<rparr>,
               \<lparr>role = Assistant, content = concat (map chunk_text (arrived rs)), images = None\<rparr>])
         \<and> (r = Go \<and> (prompt_text \<noteq> [] \<or> imgs \<noteq> []) \<and> res = CancelledError \<longrightarrow>
            appended eff =
              [\<lparr>role = User, content = prompt_text,
                images = (if imgs \<noteq> [] then Some imgs else None)\<rparr>])
         \<and> (r = Go \<and> prompt_text = [] \<and> imgs = [] \<longrightarrow> appended eff = [])
         \<and> (r = Cancel \<longrightarrow> res = CancelledError \<and> appended eff = [])"
proof -
  from run obtain p1 e1 e2
    where step: "handle_prompt_step dec sid prompt True NotStarted r = Some (p1, e1)"
      and rest: "handle_prompt_run dec sid prompt True p1 rs = Some (Finished res, e2)"
      and eff: "eff = join_effects e1 e2"
    by (auto split: option.splits)
  show ?thesis
  proof (cases "r = Cancel")
    case True
    with step have "p1 = Finished CancelledError" and "e1 = no_effects" by simp_all
    with run_Finished [OF rest [unfolded \<open>p1 = Finished CancelledError\<close>]] eff True
    show ?thesis by (simp add: no_effects_def join_effects_def)
  next
    case False
    with step have go: "r = Go" by (cases r) simp_all
    show ?thesis
    proof (cases "prompt_text = [] \<and> imgs = []")
      case True
      with step go ex have "p1 = Finished Returned" and "appended e1 = []" by auto
      with run_Finished [OF rest [unfolded \<open>p1 = Finished Returned\<close>]] eff go True
      show ?thesis by (simp add: join_effects_def no_effects_def)
    next
      case False
      with step go ex have p1: "p1 = Streaming AwaitChat"
        and e1: "appended e1 =
                   [\<lparr>role = User, content = prompt_text,
                     images = (if imgs \<noteq> [] then Some imgs else None)\<rparr>]"
        by (auto simp: Let_def)
      from run_Streaming_appended [OF rest [unfolded p1]] eff e1 go False
      show ?thesis by (auto simp: join_effects_def)
    qed
  qed
qed

theorem history_growth_of_a_run_witness:
  "extract_content_from_prompt sample_b64decode hi_prompt = ((py ''hi'', []), [])
   \<and> handle_prompt_run sample_b64decode (py ''s'') hi_prompt True NotStarted
        (Go # [Go, Item [''message'' \<mapsto> [''content'' \<mapsto> py ''Hello'']], Go, StopAsyncIteration])
      = Some (Finished Returned,
              \<lparr>appended = [hi_user, \<lparr>role = Assistant, content = py ''Hello'', images = None\<rparr>],
               delivered = [AgentMessageText (py ''Hello'')], logged = []\<rparr>)
   \<and> handle_prompt_run sample_b64decode (py ''s'') hi_prompt True NotStarted
        (Go # [Go, Item [''message'' \<mapsto> [''content'' \<mapsto> py ''Hello'']], Cancel])
      = Some (Finished CancelledError,
              \<lparr>appended = [hi_user], delivered = [AgentMessageText (py ''Hello'')], logged = []\<rparr>)
   \<and> handle_prompt_run sample_b64decode (py ''s'') hi_prompt True NotStarted (Cancel # [])
      = Some (Finished CancelledError, \<lparr>appended = [], delivered = [], logged = []\<rparr>)
   \<and> extract_content_from_prompt sample_b64decode [] = (([], []), [])
   \<and> handle_prompt_run sample_b64decode (py ''s'') [] True NotStarted (Go # [])
      = Some (Finished Returned, \<lparr>appended = [], delivered = [], logged = []\<rparr>)"
proof -
  have ex0: "extract_content_from_prompt sample_b64decode [] = (([], []), [])"
    by (simp add: extract_content_from_prompt_def)
  have r4: "handle_prompt_run sample_b64decode (py ''s'') [] True NotStarted (Go # [])
      = Some (Finished Returned, \<lparr>appended = [], delivered = [], logged = []\<rparr>)"
    by (simp add: ex0 join_effects_def no_effects_def)
  have ex: "extract_content_from_prompt sample_b64decode hi_prompt = ((py ''hi'', []), [])"
    by simp
  have r1: "handle_prompt_run sample_b64decode (py ''s'') hi_prompt True NotStarted
        (Go # [Go, Item [''message'' \<mapsto> [''content'' \<mapsto> py ''Hello'']], Go, StopAsyncIteration])
      = Some (Finished Returned,
              \<lparr>appended = [hi_user, \<lparr>role = Assistant, content = py ''Hello'', images = None\<rparr>],
               delivered = [AgentMessageText (py ''Hello'')], logged = []\<rparr>)"
    by (simp add: Let_def join_effects_def no_effects_def hi_user_def)
  have r2: "handle_prompt_run sample_b64decode (py ''s'') hi_prompt True NotStarted
        (Go # [Go, Item [''message'' \<mapsto> [''content'' \<mapsto> py ''Hello'']], Cancel])
      = Some (Finished CancelledError,
              \<lparr>appended = [hi_user], delivered = [AgentMessageText (py ''Hello'')], logged = []\<rparr>)"
    by (simp add: Let_def join_effects_def no_effects_def hi_user_def)
  have r3: "handle_prompt_run sample_b64decode (py ''s'') hi_prompt True NotStarted (Cancel # [])
      = Some (Finished CancelledError, \<lparr>appended = [], delivered = [], logged = []\<rparr>)"
    by (simp add: join_effects_def no_effects_def)
  from history_growth_of_a_run [OF r1 ex] history_growth_of_a_run [OF r2 ex]
    history_growth_of_a_run [OF r3 ex] history_growth_of_a_run [OF r4 ex0] ex r1 r2 r3 ex0 r4
  show ?thesis by blast
qed

text \<open>
  The claim as it was stated fails: a task cancelled before the event loop has run its
  first step never executes \<open>handle_prompt\<close>. The prompt \<open>hi\<close> has content, its call
  of \<open>prompt\<close> answers \<open>cancelled\<close>, and the history of the session is as empty as it
  was.
\<close>

theorem cancelled_before_start_counterexample:
  "fst (extract_content_from_prompt sample_b64decode hi_prompt) = (py ''hi'', [])
   \<and> map_option tasks
       (exec sample_b64decode
          [PromptCall (py ''s'') hi_prompt, CancelCall (py ''s''), Step 0 Go, PromptReturn 0]
          OllamaAgent)
       = Some [hi_task (Finished CancelledError) False (Some (Inr cancelled))]
   \<and> map_option (history_of (py ''s''))
       (exec sample_b64decode
          [PromptCall (py ''s'') hi_prompt, CancelCall (py ''s''), Step 0 Go, PromptReturn 0]
          OllamaAgent)
       = Some []"
proof -
  have "exec sample_b64decode
          ([PromptCall (py ''s'') hi_prompt] @
           [CancelCall (py ''s''), Step 0 Go, PromptReturn 0]) OllamaAgent
        = exec sample_b64decode [CancelCall (py ''s''), Step 0 Go, PromptReturn 0] example_created"
    by (simp only: exec_append reach_created option.case)
  then show ?thesis
    by (simp add: run_simps example_created_def history_of_def)
qed



subsection \<open>What the caller of \<open>prompt\<close> is given\<close>




subsection \<open>Superseding, cancelling and the pending reference\<close>

text \<open>
  C1, as amended. When \<open>prompt\<close> is called for a session whose \<open>pending_prompt\<close>
  refers to a task that is not done, it requests the cancellation of that task and,
  in the same uninterrupted piece of code and without awaiting the task, creates the new
  task and makes it the pending one. Right after, both tasks are not done. The old task
  ends cancelled at its next step, whatever it was waiting for, and that step changes
  neither the sessions nor the sink.
\<close>

theorem prompt_supersedes_without_awaiting:
  assumes "sessions s sid = Some sess" and "pending_prompt sess = Some old"
    and "old < length (tasks s)" and "unfinished (tasks s ! old)"
  shows "tasks (prompt_call sid prompt s) =
           (tasks s)[old := (tasks s ! old)\<lparr>must_cancel := True\<rparr>] @
           [\<lparr>task_session_id = sid, task_prompt = prompt, task_pc = NotStarted,
             must_cancel = False, prompt_result = None\<rparr>]
         \<and> sessions (prompt_call sid prompt s) =
             (sessions s)(sid \<mapsto> sess\<lparr>pending_prompt := Some (length (tasks s))\<rparr>)
         \<and> sink (prompt_call sid prompt s) = sink s
         \<and> unfinished (tasks (prompt_call sid prompt s) ! old)
         \<and> unfinished (tasks (prompt_call sid prompt s) ! length (tasks s))
         \<and> (\<forall>r. r \<noteq> Cancel \<longrightarrow>
               (\<exists>s'. task_step dec old r (prompt_call sid prompt s) = Some s'
                  \<and> task_pc (tasks s' ! old) = Finished CancelledError
                  \<and> sessions s' = sessions (prompt_call sid prompt s)
                  \<and> sink s' = sink (prompt_call sid prompt s)))"
proof -
  define s1 where "s1 = prompt_call sid prompt s"
  have call: "s1 =
                s\<lparr>tasks := (tasks s)[old := (tasks s ! old)\<lparr>must_cancel := True\<rparr>] @
                           [\<lparr>task_session_id = sid, task_prompt = prompt, task_pc = NotStarted,
                             must_cancel = False, prompt_result = None\<rparr>],
                  sessions := (sessions s)(sid \<mapsto> sess\<lparr>pending_prompt := Some (length (tasks s))\<rparr>)\<rparr>"
    using assms by (simp add: s1_def prompt_call_def task_cancel_unfinished Let_def)
  have len: "old < length (tasks s1)"
    using assms(3) by (simp add: call)
  have old: "tasks s1 ! old = (tasks s ! old)\<lparr>must_cancel := True\<rparr>"
    using assms(3) by (simp add: call nth_append)
  have new: "tasks s1 ! length (tasks s) =
               \<lparr>task_session_id = sid, task_prompt = prompt, task_pc = NotStarted,
                must_cancel = False, prompt_result = None\<rparr>"
    by (simp add: call nth_append)
  have u_old: "unfinished (tasks s1 ! old)"
    using assms(4) by (simp add: old unfinished_def)
  have m_old: "must_cancel (tasks s1 ! old)"
    by (simp add: old)
  have u_new: "unfinished (tasks s1 ! length (tasks s))"
    by (simp add: new unfinished_def)
  have step: "\<exists>s'. task_step dec old r s1 = Some s'
                  \<and> task_pc (tasks s' ! old) = Finished CancelledError
                  \<and> sessions s' = sessions s1 \<and> sink s' = sink s1" if "r \<noteq> Cancel" for r
    using task_step_cancelled [OF len u_old m_old that, of dec] len by simp
  have "tasks s1 = (tasks s)[old := (tasks s ! old)\<lparr>must_cancel := True\<rparr>] @
           [\<lparr>task_session_id = sid, task_prompt = prompt, task_pc = NotStarted,
             must_cancel = False, prompt_result = None\<rparr>]"
    and "sessions s1 = (sessions s)(sid \<mapsto> sess\<lparr>pending_prompt := Some (length (tasks s))\<rparr>)"
    and "sink s1 = sink s"
    by (simp_all add: call)
  with u_old u_new step show ?thesis
    unfolding s1_def by blast
qed

theorem prompt_supersedes_without_awaiting_witness:
  "exec sample_b64decode [PromptCall (py ''s'') hi_prompt, Step 0 Go] OllamaAgent = Some example_running
   \<and> sessions example_running (py ''s'') =
       Some \<lparr>pending_prompt = Some 0, conversation_history = [hi_user]\<rparr>
   \<and> pending_prompt \<lparr>pending_prompt = Some 0, conversation_history = [hi_user]\<rparr> = Some 0
   \<and> 0 < length (tasks example_running) \<and> unfinished (tasks example_running ! 0)
   \<and> tasks (prompt_call (py ''s'') hi_prompt example_running) =
       [hi_task (Streaming AwaitChat) True None, hi_task NotStarted False None]
   \<and> unfinished (tasks (prompt_call (py ''s'') hi_prompt example_running) ! 0)
   \<and> unfinished (tasks (prompt_call (py ''s'') hi_prompt example_running) ! 1)"
proof -
  have h1: "sessions example_running (py ''s'') =
              Some \<lparr>pending_prompt = Some 0, conversation_history = [hi_user]\<rparr>"
    by (simp add: example_running_def)
  have h2: "pending_prompt \<lparr>pending_prompt = Some 0, conversation_history = [hi_user]\<rparr> = Some 0"
    by simp
  have h3: "0 < length (tasks example_running)"
    by (simp add: example_running_def)
  have h4: "unfinished (tasks example_running ! 0)"
    by (simp add: example_running_def unfinished_def hi_task_def)
  have len: "length (tasks example_running) = 1"
    by (simp add: example_running_def)
  have "exec sample_b64decode ([PromptCall (py ''s'') hi_prompt] @ [Step 0 Go]) OllamaAgent
          = Some example_running"
    by (simp only: exec_append reach_created reach_running option.case)
  then have reach: "exec sample_b64decode [PromptCall (py ''s'') hi_prompt, Step 0 Go] OllamaAgent
                      = Some example_running"
    by (simp only: append_Cons append_Nil)
  note superseded = prompt_supersedes_without_awaiting [OF h1 h2 h3 h4, of hi_prompt sample_b64decode]
  have new: "tasks (prompt_call (py ''s'') hi_prompt example_running) =
               [hi_task (Streaming AwaitChat) True None, hi_task NotStarted False None]"
    using superseded by (simp add: example_running_def hi_task_def)
  have u0: "unfinished (tasks (prompt_call (py ''s'') hi_prompt example_running) ! 0)"
    using superseded by blast
  have "unfinished (tasks (prompt_call (py ''s'') hi_prompt example_running) !
                      length (tasks example_running))"
    using superseded by blast
  then have u1: "unfinished (tasks (prompt_call (py ''s'') hi_prompt example_running) ! 1)"
    by (simp only: len)
  show ?thesis
    using reach h1 h2 h3 h4 new u0 u1 by blast
qed

text \<open>
  The claim as it was stated fails. After a second call of \<open>prompt\<close> the first task,
  suspended in \<open>chat\<close>, is asked to cancel and is not done, and the second task exists
  beside it. And with three calls for one session: the second supersedes the first; the
  first call resumes and resets \<open>pending_prompt\<close>; so the third finds nothing to cancel.
  The tasks of the second and the third call are then both suspended in \<open>chat\<close>, and
  no cancellation is requested for either.
\<close>

theorem single_flight_counterexample:
  "map_option tasks
     (exec sample_b64decode
        [PromptCall (py ''s'') hi_prompt, Step 0 Go, PromptCall (py ''s'') hi_prompt] OllamaAgent)
     = Some [hi_task (Streaming AwaitChat) True None, hi_task NotStarted False None]
   \<and> map_option (active_runs (py ''s''))
     (exec sample_b64decode
        [PromptCall (py ''s'') hi_prompt, Step 0 Go, PromptCall (py ''s'') hi_prompt] OllamaAgent)
     = Some [0, 1]
   \<and> map_option tasks
     (exec sample_b64decode
        [PromptCall (py ''s'') hi_prompt, Step 0 Go,
         PromptCall (py ''s'') hi_prompt, Step 0 Go, Step 1 Go,
         PromptReturn 0,
         PromptCall (py ''s'') hi_prompt, Step 2 Go] OllamaAgent)
     = Some [hi_task (Finished CancelledError) False (Some (Inr cancelled)),
             hi_task (Streaming AwaitChat) False None,
             hi_task (Streaming AwaitChat) False None]
   \<and> map_option (active_runs (py ''s''))
     (exec sample_b64decode
        [PromptCall (py ''s'') hi_prompt, Step 0 Go,
         PromptCall (py ''s'') hi_prompt, Step 0 Go, Step 1 Go,
         PromptReturn 0,
         PromptCall (py ''s'') hi_prompt, Step 2 Go] OllamaAgent)
     = Some [1, 2]"
proof -
  have "exec sample_b64decode
        ([PromptCall (py ''s'') hi_prompt] @ [Step 0 Go] @
         [PromptCall (py ''s'') hi_prompt, Step 0 Go, Step 1 Go] @
         [PromptReturn 0, PromptCall (py ''s'') hi_prompt, Step 2 Go]) OllamaAgent
        = exec sample_b64decode
            [PromptReturn 0, PromptCall (py ''s'') hi_prompt, Step 2 Go] example_superseded"
    by (simp only: exec_append reach_created reach_running reach_superseded option.case)
  moreover have "exec sample_b64decode
        ([PromptCall (py ''s'') hi_prompt] @ [Step 0 Go] @ [PromptCall (py ''s'') hi_prompt])
        OllamaAgent
        = exec sample_b64decode [PromptCall (py ''s'') hi_prompt] example_running"
    by (simp only: exec_append reach_created reach_running option.case)
  ultimately show ?thesis
    by (simp add: run_simps example_superseded_def example_running_def active_runs_def
          unfinished_def upt_conv_Cons)
qed

text \<open>
  C9. When the task that a call of \<open>prompt\<close> awaits is done, however it ended, the
  call resumes, sets \<open>pending_prompt\<close> of its session to \<open>None\<close> whatever it referred
  to, and gives its caller the answer that belongs to the ending of the task. No other
  task is touched, so a Run that a later call has installed as pending goes on; and
  \<open>cancel\<close> for the session then changes nothing.
\<close>

theorem prompt_return_clears_pending:
  assumes "t < length (tasks s)" and "task_pc (tasks s ! t) = Finished res"
    and "prompt_result (tasks s ! t) = None"
    and "sessions s (task_session_id (tasks s ! t)) = Some sess"
  shows "\<exists>s'. prompt_return t s = Some s'
           \<and> sessions s' = (sessions s)(task_session_id (tasks s ! t) \<mapsto> sess\<lparr>pending_prompt := None\<rparr>)
           \<and> tasks s' = (tasks s)[t := (tasks s ! t)\<lparr>prompt_result :=
                Some (case res of Returned \<Rightarrow> Inr end_turn
                                | CancelledError \<Rightarrow> Inr cancelled
                                | Raised e \<Rightarrow> Inl e)\<rparr>]
           \<and> sink s' = sink s
           \<and> pending_of (task_session_id (tasks s ! t)) s' = None
           \<and> cancel (task_session_id (tasks s ! t)) s' = s'"
  using assms
  by (simp add: prompt_return_def Let_def cancel_def pending_of_def)

theorem prompt_return_clears_pending_witness:
  "exec sample_b64decode
     [PromptCall (py ''s'') hi_prompt, Step 0 Go, PromptCall (py ''s'') hi_prompt, Step 0 Go,
      Step 1 Go] OllamaAgent = Some example_superseded
   \<and> 0 < length (tasks example_superseded)
   \<and> task_pc (tasks example_superseded ! 0) = Finished CancelledError
   \<and> prompt_result (tasks example_superseded ! 0) = None
   \<and> sessions example_superseded (task_session_id (tasks example_superseded ! 0)) =
       Some \<lparr>pending_prompt = Some 1, conversation_history = [hi_user, hi_user]\<rparr>
   \<and> pending_of (py ''s'') example_superseded = Some 1
   \<and> unfinished (tasks example_superseded ! 1)
   \<and> (\<exists>s'. prompt_return 0 example_superseded = Some s'
          \<and> tasks s' = [hi_task (Finished CancelledError) False (Some (Inr cancelled)),
                         hi_task (Streaming AwaitChat) False None]
          \<and> pending_of (py ''s'') s' = None
          \<and> cancel (py ''s'') s' = s')"
proof -
  have h1: "0 < length (tasks example_superseded)"
    and h2: "task_pc (tasks example_superseded ! 0) = Finished CancelledError"
    and h3: "prompt_result (tasks example_superseded ! 0) = None"
    and h4: "sessions example_superseded (task_session_id (tasks example_superseded ! 0)) =
               Some \<lparr>pending_prompt = Some 1, conversation_history = [hi_user, hi_user]\<rparr>"
    and p: "pending_of (py ''s'') example_superseded = Some 1"
    and u: "unfinished (tasks example_superseded ! 1)"
    and sid: "task_session_id (tasks example_superseded ! 0) = py ''s''"
    by (simp_all add: example_superseded_def hi_task_def pending_of_def unfinished_def)
  have "exec sample_b64decode
          ([PromptCall (py ''s'') hi_prompt] @ [Step 0 Go] @
           [PromptCall (py ''s'') hi_prompt, Step 0 Go, Step 1 Go]) OllamaAgent
          = Some example_superseded"
    by (simp only: exec_append reach_created reach_running reach_superseded option.case)
  then have reach: "exec sample_b64decode
     [PromptCall (py ''s'') hi_prompt, Step 0 Go, PromptCall (py ''s'') hi_prompt, Step 0 Go,
      Step 1 Go] OllamaAgent = Some example_superseded"
    by (simp only: append_Cons append_Nil)
  from prompt_return_clears_pending [OF h1 h2 h3 h4]
  obtain s' where r: "prompt_return 0 example_superseded = Some s'"
    and ts: "tasks s' = (tasks example_superseded)[0 := (tasks example_superseded ! 0)
               \<lparr>prompt_result := Some (Inr cancelled)\<rparr>]"
    and pn: "pending_of (task_session_id (tasks example_superseded ! 0)) s' = None"
    and c: "cancel (task_session_id (tasks example_superseded ! 0)) s' = s'"
    by auto
  from ts have ts': "tasks s' = [hi_task (Finished CancelledError) False (Some (Inr cancelled)),
                         hi_task (Streaming AwaitChat) False None]"
    by (simp add: example_superseded_def hi_task_def)
  from r ts' pn c have "\<exists>s'. prompt_return 0 example_superseded = Some s'
          \<and> tasks s' = [hi_task (Finished CancelledError) False (Some (Inr cancelled)),
                         hi_task (Streaming AwaitChat) False None]
          \<and> pending_of (py ''s'') s' = None
          \<and> cancel (py ''s'') s' = s'"
    unfolding sid by blast
  with reach h1 h2 h3 h4 p u show ?thesis by blast
qed

text \<open>
  C8. When \<open>prompt\<close> is called with an identifier that is not registered, it
  registers a fresh session under it, with an empty history and the new task as
  pending, and does not fail. The first step of that task finds the session
  (no \<open>KeyError\<close>) and appends the user message of the prompt to its history, or
  nothing when the prompt has no content.
\<close>

theorem unknown_session_is_created:
  assumes "sessions s sid = None"
  shows "prompt_call sid prompt s =
           s\<lparr>sessions := (sessions s)(sid \<mapsto>
                \<lparr>pending_prompt = Some (length (tasks s)), conversation_history = []\<rparr>),
             tasks := tasks s @
                [\<lparr>task_session_id = sid, task_prompt = prompt, task_pc = NotStarted,
                  must_cancel = False, prompt_result = None\<rparr>]\<rparr>
         \<and> (\<exists>s'. task_step dec (length (tasks s)) Go (prompt_call sid prompt s) = Some s'
              \<and> task_pc (tasks s' ! length (tasks s)) \<noteq> Finished (Raised (KeyError sid))
              \<and> sessions s' sid =
                  Some \<lparr>pending_prompt = Some (length (tasks s)),
                        conversation_history =
                          (case extract_content_from_prompt dec prompt of
                             ((prompt_text, imgs), lg) \<Rightarrow>
                               if prompt_text = [] \<and> imgs = [] then []
                               else [\<lparr>role = User, content = prompt_text,
                                      images = (if imgs \<noteq> [] then Some imgs else None)\<rparr>])\<rparr>)"
proof -
  define s1 where "s1 = prompt_call sid prompt s"
  have call: "s1 = s\<lparr>sessions := (sessions s)(sid \<mapsto>
                \<lparr>pending_prompt = Some (length (tasks s)), conversation_history = []\<rparr>),
             tasks := tasks s @
                [\<lparr>task_session_id = sid, task_prompt = prompt, task_pc = NotStarted,
                  must_cancel = False, prompt_result = None\<rparr>]\<rparr>"
    using assms by (simp add: s1_def prompt_call_def Let_def AgentSession_def)
  obtain prompt_text imgs lg
    where ex: "extract_content_from_prompt dec prompt = ((prompt_text, imgs), lg)"
    by (cases "extract_content_from_prompt dec prompt") auto
  have "\<exists>s'. task_step dec (length (tasks s)) Go s1 = Some s'
              \<and> task_pc (tasks s' ! length (tasks s)) \<noteq> Finished (Raised (KeyError sid))
              \<and> sessions s' sid =
                  Some \<lparr>pending_prompt = Some (length (tasks s)),
                        conversation_history =
                          (if prompt_text = [] \<and> imgs = [] then []
                           else [\<lparr>role = User, content = prompt_text,
                                  images = (if imgs \<noteq> [] then Some imgs else None)\<rparr>])\<rparr>"
    by (simp add: call task_step_def Let_def ex apply_effects_def)
  then show ?thesis
    using call unfolding s1_def by (simp add: ex)
qed

theorem unknown_session_is_created_witness:
  "sessions OllamaAgent (py ''s'') = None
   \<and> prompt_call (py ''s'') hi_prompt OllamaAgent = example_created
   \<and> task_step sample_b64decode 0 Go (prompt_call (py ''s'') hi_prompt OllamaAgent)
       = Some example_running
   \<and> map_option tasks
       (exec sample_b64decode
          [PromptCall (py ''s'') hi_prompt, Step 0 Go, Step 0 Go,
           Step 0 (Item [''message'' \<mapsto> [''content'' \<mapsto> py ''Hello'']]), Step 0 Go,
           Step 0 StopAsyncIteration, PromptReturn 0] OllamaAgent)
       = Some [hi_task (Finished Returned) False (Some (Inr end_turn))]
   \<and> map_option (history_of (py ''s''))
       (exec sample_b64decode
          [PromptCall (py ''s'') hi_prompt, Step 0 Go, Step 0 Go,
           Step 0 (Item [''message'' \<mapsto> [''content'' \<mapsto> py ''Hello'']]), Step 0 Go,
           Step 0 StopAsyncIteration, PromptReturn 0] OllamaAgent)
       = Some [hi_user, \<lparr>role = Assistant, content = py ''Hello'', images = None\<rparr>]"
proof -
  have h: "sessions OllamaAgent (py ''s'') = None"
    by (simp add: OllamaAgent_def)
  have c: "prompt_call (py ''s'') hi_prompt OllamaAgent = example_created"
    using unknown_session_is_created [OF h, of hi_prompt sample_b64decode]
    by (simp add: OllamaAgent_def example_created_def hi_task_def)
  have "task_step sample_b64decode 0 Go example_created = Some example_running"
    using reach_running [of sample_b64decode] by (simp split: option.splits)
  with c have first: "task_step sample_b64decode 0 Go (prompt_call (py ''s'') hi_prompt OllamaAgent)
                        = Some example_running"
    by simp
  have "exec sample_b64decode
          ([PromptCall (py ''s'') hi_prompt] @ [Step 0 Go] @
           [Step 0 Go, Step 0 (Item [''message'' \<mapsto> [''content'' \<mapsto> py ''Hello'']]), Step 0 Go,
            Step 0 StopAsyncIteration, PromptReturn 0]) OllamaAgent
        = exec sample_b64decode
           [Step 0 Go, Step 0 (Item [''message'' \<mapsto> [''content'' \<mapsto> py ''Hello'']]), Step 0 Go,
            Step 0 StopAsyncIteration, PromptReturn 0] example_running"
    by (simp only: exec_append reach_created reach_running option.case)
  then have whole: "map_option tasks
       (exec sample_b64decode
          [PromptCall (py ''s'') hi_prompt, Step 0 Go, Step 0 Go,
           Step 0 (Item [''message'' \<mapsto> [''content'' \<mapsto> py ''Hello'']]), Step 0 Go,
           Step 0 StopAsyncIteration, PromptReturn 0] OllamaAgent)
       = Some [hi_task (Finished Returned) False (Some (Inr end_turn))]
     \<and> map_option (history_of (py ''s''))
       (exec sample_b64decode
          [PromptCall (py ''s'') hi_prompt, Step 0 Go, Step 0 Go,
           Step 0 (Item [''message'' \<mapsto> [''content'' \<mapsto> py ''Hello'']]), Step 0 Go,
           Step 0 StopAsyncIteration, PromptReturn 0] OllamaAgent)
       = Some [hi_user, \<lparr>role = Assistant, content = py ''Hello'', images = None\<rparr>]"
    by (simp add: run_simps example_running_def history_of_def)
  from h c first whole show ?thesis by blast
qed

end
